theory Spec2Isabelle
  imports Main "HOL-Library.Sublist"
begin

section \<open>The podman secret resource of the Terraform provider\<close>

text \<open>
  A shallow embedding of \<^verbatim>\<open>internal/provider/secret_resource.go\<close> (the
  \<^verbatim>\<open>SecretResource\<close> with \<^verbatim>\<open>driver_opts\<close> and map-valued labels) and of
  \<^verbatim>\<open>PodmanProvider.Configure\<close>. Every lifecycle method mutates the response it
  is handed; here it takes the response and returns the updated one. The log written
  through \<^verbatim>\<open>tflog\<close> and the calls made to the podman bindings are effects
  of a method; they are recorded in two further fields of the response record, in the
  order in which they happen.
\<close>

subsection \<open>Framework values\<close>

text \<open>
  \<^verbatim>\<open>types.String\<close> is null, unknown or a known string. \<^verbatim>\<open>ValueString\<close>
  is the empty string for a null or unknown value; \<^verbatim>\<open>ValueStringPointer\<close> is nil
  for null and points to the empty string for unknown.
\<close>

datatype tf_string = StringNull | StringUnknown | StringValue string

definition IsNull :: "tf_string \<Rightarrow> bool" where
  "IsNull v = (case v of StringNull \<Rightarrow> True | StringUnknown \<Rightarrow> False | StringValue s \<Rightarrow> False)"

definition ValueString :: "tf_string \<Rightarrow> string" where
  "ValueString v = (case v of StringNull \<Rightarrow> [] | StringUnknown \<Rightarrow> [] | StringValue s \<Rightarrow> s)"

definition ValueStringPointer :: "tf_string \<Rightarrow> string option" where
  "ValueStringPointer v =
     (case v of StringNull \<Rightarrow> None | StringUnknown \<Rightarrow> Some [] | StringValue s \<Rightarrow> Some s)"

text \<open>
  A Go \<^verbatim>\<open>map[string]string\<close>: \<open>None\<close> is the nil map. \<^verbatim>\<open>types.Map\<close> with
  string elements is null, unknown or a known map of framework strings.
\<close>

type_synonym go_map = "(string \<rightharpoonup> string) option"

datatype tf_map = MapNull | MapUnknown | MapValue "string \<rightharpoonup> tf_string"

subsection \<open>Diagnostics and log\<close>

datatype severity = SeverityError | SeverityWarning

record diagnostic =
  Severity :: severity
  Summary :: string
  Detail :: string

type_synonym diagnostics = "diagnostic list"

definition HasError :: "diagnostics \<Rightarrow> bool" where
  "HasError ds = (\<exists>d \<in> set ds. Severity d = SeverityError)"

text \<open>\<^verbatim>\<open>Diagnostics.Append\<close> skips a diagnostic the collection already contains.\<close>

definition Append :: "diagnostics \<Rightarrow> diagnostics \<Rightarrow> diagnostics" where
  "Append ds new = foldl (\<lambda>acc d. if d \<in> set acc then acc else acc @ [d]) ds new"

definition AddError :: "string \<Rightarrow> string \<Rightarrow> diagnostics \<Rightarrow> diagnostics" where
  "AddError summary detail ds =
     Append ds [\<lparr>Severity = SeverityError, Summary = summary, Detail = detail\<rparr>]"

datatype log_level = LevelTrace | LevelDebug | LevelInfo | LevelWarn | LevelError

record log_entry =
  Level :: log_level
  Msg :: string

subsection \<open>The podman bindings\<close>

text \<open>
  The connection is the \<^verbatim>\<open>context.Context\<close> that \<^verbatim>\<open>bindings.NewConnection\<close>
  returns, an opaque handle. An error of the bindings carries the HTTP response code of
  the service and a message; \<^verbatim>\<open>Error()\<close> is the message. A not-found
  failure is the response code 404.
\<close>

datatype connection = Connection nat

record remote_error =
  ResponseCode :: nat
  Message :: string

definition Error :: "remote_error \<Rightarrow> string" where
  "Error e = Message e"

definition is_not_found :: "remote_error \<Rightarrow> bool" where
  "is_not_found e = (ResponseCode e = 404)"

text \<open>
  \<^verbatim>\<open>secrets.CreateOptions\<close>, \<^verbatim>\<open>secrets.ListOptions\<close> and the fields of
  \<^verbatim>\<open>entities.SecretInfoReport\<close> that \<^verbatim>\<open>Read\<close> uses. The field names carry a
  prefix where they would clash with those of the resource model.
\<close>

record CreateOptions =
  opt_Name :: "string option"
  opt_Driver :: "string option"
  opt_DriverOpts :: go_map
  opt_Labels :: go_map

record ListOptions =
  Filters :: "string \<rightharpoonup> string list"

record SecretInfoReport =
  ID :: string
  Spec_Name :: string
  Spec_Driver_Name :: string
  Spec_Driver_Options :: go_map
  Spec_Labels :: go_map
  SecretData :: string

text \<open>
  The bindings themselves are not part of the provider: what a call returns is a
  parameter. Each lifecycle method makes at most one call, so a function of the call's
  arguments describes the service at the moment of the call.
\<close>

record bindings =
  secrets_Create :: "connection option \<Rightarrow> string \<Rightarrow> CreateOptions \<Rightarrow> remote_error + string"
  secrets_List :: "connection option \<Rightarrow> ListOptions \<Rightarrow> remote_error + SecretInfoReport list"
  secrets_Remove :: "connection option \<Rightarrow> string \<Rightarrow> remote_error option"
  NewConnection :: "string \<Rightarrow> remote_error + connection"

datatype remote_call =
    CallCreate "connection option" string CreateOptions
  | CallList "connection option" ListOptions
  | CallRemove "connection option" string
  | CallNewConnection string

text \<open>The error, if any, that the bindings return for a recorded call.\<close>

definition call_error :: "bindings \<Rightarrow> remote_call \<Rightarrow> remote_error option" where
  "call_error b c =
     (case c of
        CallCreate cn payload opts \<Rightarrow>
          (case secrets_Create b cn payload opts of Inl e \<Rightarrow> Some e | Inr createResp_ID \<Rightarrow> None)
      | CallList cn opts \<Rightarrow>
          (case secrets_List b cn opts of Inl e \<Rightarrow> Some e | Inr secret \<Rightarrow> None)
      | CallRemove cn nameOrID \<Rightarrow> secrets_Remove b cn nameOrID
      | CallNewConnection endpoint \<Rightarrow>
          (case NewConnection b endpoint of Inl e \<Rightarrow> Some e | Inr c \<Rightarrow> None))"

subsection \<open>The resource, its model, requests and responses\<close>

record SecretResource =
  conn :: "connection option"

record SecretResourceModel =
  Id :: tf_string
  Name :: tf_string
  Driver :: tf_string
  DriverOpts :: tf_map
  Labels :: tf_map
  Secret :: tf_string

text \<open>
  \<^verbatim>\<open>req.Plan.Get(ctx, &data)\<close> and \<^verbatim>\<open>req.State.Get(ctx, &data)\<close> decode the
  plan or the prior state into the model and return diagnostics: a plan or state is
  given by both. The conversions between framework maps and Go maps return diagnostics
  as well; the methods only pass them on, so the conversions are parameters.
\<close>

record tfsdk_data =
  Get_diags :: diagnostics
  Get_data :: SecretResourceModel

record request =
  Plan :: tfsdk_data
  ReqState :: tfsdk_data

record framework =
  ElementsAs :: "tf_map \<Rightarrow> go_map \<Rightarrow> diagnostics \<times> go_map"
  NewMapValueFrom :: "go_map \<Rightarrow> tf_map \<times> diagnostics"

text \<open>
  The response: its diagnostics and its state (\<open>None\<close> once
  \<^verbatim>\<open>RemoveResource\<close> has been called, and for the null state \<^verbatim>\<open>Create\<close>
  starts from), then the log and the calls to the bindings. \<^verbatim>\<open>State.Set\<close> of a
  model whose fields are framework values of the schema's types stores the model and
  returns no diagnostics.
\<close>

record response =
  Diagnostics :: diagnostics
  State :: "SecretResourceModel option"
  Log :: "log_entry list"
  Calls :: "remote_call list"

definition AppendDiags :: "diagnostics \<Rightarrow> response \<Rightarrow> response" where
  "AppendDiags ds resp = resp\<lparr>Diagnostics := Append (Diagnostics resp) ds\<rparr>"

definition RespAddError :: "string \<Rightarrow> string \<Rightarrow> response \<Rightarrow> response" where
  "RespAddError summary detail resp =
     resp\<lparr>Diagnostics := AddError summary detail (Diagnostics resp)\<rparr>"

definition StateSet :: "SecretResourceModel \<Rightarrow> response \<Rightarrow> response" where
  "StateSet data resp = resp\<lparr>State := Some data\<rparr>"

definition RemoveResource :: "response \<Rightarrow> response" where
  "RemoveResource resp = resp\<lparr>State := None\<rparr>"

definition tflog_Error :: "string \<Rightarrow> response \<Rightarrow> response" where
  "tflog_Error msg resp = resp\<lparr>Log := Log resp @ [\<lparr>Level = LevelError, Msg = msg\<rparr>]\<rparr>"

definition called :: "remote_call \<Rightarrow> response \<Rightarrow> response" where
  "called c resp = resp\<lparr>Calls := Calls resp @ [c]\<rparr>"

subsection \<open>Formatting\<close>

text \<open>
  \<^verbatim>\<open>fmt.Sprintf("%q", s)\<close> is \<^verbatim>\<open>strconv.Quote\<close>: the string in double quotes,
  with the double quote and the backslash escaped, printable ASCII as it is, the
  control characters with a short escape by that escape and any other byte below 128 as
  \<^verbatim>\<open>\x\<close> and two hexadecimal digits. Go decodes bytes from 128 on as UTF-8 and
  prints a printable rune as it is; the model is exact on ASCII strings and renders
  every other byte as \<^verbatim>\<open>\x\<close> and two digits, which is what Go does with invalid
  UTF-8.
\<close>

definition hex_digit :: "nat \<Rightarrow> char" where
  "hex_digit n = (if n < 10 then char_of (48 + n) else char_of (87 + n))"

definition quote_byte :: "char \<Rightarrow> string" where
  "quote_byte c =
     (let n = (of_char c :: nat) in
      if n = 34 then [CHR 0x5C, CHR 0x22]
      else if n = 92 then [CHR 0x5C, CHR 0x5C]
      else if 32 \<le> n \<and> n < 127 then [c]
      else if n = 7 then [CHR 0x5C, CHR ''a'']
      else if n = 8 then [CHR 0x5C, CHR ''b'']
      else if n = 12 then [CHR 0x5C, CHR ''f'']
      else if n = 10 then [CHR 0x5C, CHR ''n'']
      else if n = 13 then [CHR 0x5C, CHR ''r'']
      else if n = 9 then [CHR 0x5C, CHR ''t'']
      else if n = 11 then [CHR 0x5C, CHR ''v'']
      else [CHR 0x5C, CHR ''x'', hex_digit (n div 16), hex_digit (n mod 16)])"

definition Quote :: "string \<Rightarrow> string" where
  "Quote s = CHR 0x22 # concat (map quote_byte s) @ [CHR 0x22]"

subsection \<open>SecretResource.Configure\<close>

text \<open>
  \<^verbatim>\<open>req.ProviderData\<close> is an \<^verbatim>\<open>any\<close>: nil, a \<^verbatim>\<open>context.Context\<close>, or a
  value of another dynamic type, given by the name \<^verbatim>\<open>%T\<close> prints.
\<close>

datatype provider_data = NilData | Context connection | OtherType string

definition Configure ::
  "SecretResource \<Rightarrow> provider_data \<Rightarrow> response \<Rightarrow> SecretResource \<times> response" where
  "Configure r ProviderData resp =
     (case ProviderData of
        NilData \<Rightarrow> (r, resp)
      | OtherType T \<Rightarrow>
          (r, RespAddError ''Unexpected Resource Configure Type''
                (''Expected *http.Client, got: '' @ T @
                 ''. Please report this issue to the provider developers.'') resp)
      | Context c \<Rightarrow> (r\<lparr>conn := Some c\<rparr>, resp))"

subsection \<open>SecretResource.Create\<close>

definition Create ::
  "framework \<Rightarrow> bindings \<Rightarrow> SecretResource \<Rightarrow> request \<Rightarrow> response \<Rightarrow> response" where
  "Create fw b r req resp =
     (let data = Get_data (Plan req);
          resp = AppendDiags (Get_diags (Plan req)) resp
      in if HasError (Diagnostics resp) then resp
      else
        let (diags1, driverOpts) = ElementsAs fw (DriverOpts data) (Some Map.empty);
            resp = AppendDiags diags1 resp
        in if HasError (Diagnostics resp) then resp
        else
          let (diags2, labels) = ElementsAs fw (Labels data) (Some Map.empty);
              resp = AppendDiags diags2 resp
          in if HasError (Diagnostics resp) then resp
          else
            let opts = \<lparr>opt_Name = ValueStringPointer (Name data),
                        opt_Driver = ValueStringPointer (Driver data),
                        opt_DriverOpts = driverOpts,
                        opt_Labels = labels\<rparr>;
                resp = called (CallCreate (conn r) (ValueString (Secret data)) opts) resp
            in case secrets_Create b (conn r) (ValueString (Secret data)) opts of
                 Inl err \<Rightarrow> RespAddError ''failed to add secret'' (Error err) resp
               | Inr createResp_ID \<Rightarrow>
                   let data = data\<lparr>Id := StringValue createResp_ID\<rparr>;
                       data = (if IsNull (Driver data)
                               then data\<lparr>Driver := StringValue ''file''\<rparr> else data)
                   in StateSet data resp)"

subsection \<open>SecretResource.Read\<close>

definition Read ::
  "framework \<Rightarrow> bindings \<Rightarrow> SecretResource \<Rightarrow> request \<Rightarrow> response \<Rightarrow> response" where
  "Read fw b r req resp =
     (let data = Get_data (ReqState req);
          resp = AppendDiags (Get_diags (ReqState req)) resp
      in if HasError (Diagnostics resp) then resp
      else
        let opts = \<lparr>Filters = [''id'' \<mapsto> [ValueString (Id data)]]\<rparr>;
            resp = called (CallList (conn r) opts) resp
        in case secrets_List b (conn r) opts of
             Inl err \<Rightarrow> RespAddError ''failed to get secret'' (Error err) resp
           | Inr secret \<Rightarrow>
               (case secret of
                  [] \<Rightarrow> RemoveResource resp
                | secret0 # _ \<Rightarrow>
                    let data = data\<lparr>Name := StringValue (Spec_Name secret0)\<rparr>;
                        data = data\<lparr>Driver := StringValue (Spec_Driver_Name secret0)\<rparr>;
                        (driverOpts, diag1) = NewMapValueFrom fw (Spec_Driver_Options secret0);
                        resp = AppendDiags diag1 resp;
                        data = data\<lparr>DriverOpts := driverOpts\<rparr>;
                        (labels, diag2) = NewMapValueFrom fw (Spec_Labels secret0);
                        resp = AppendDiags diag2 resp;
                        data = data\<lparr>Labels := labels\<rparr>;
                        data = data\<lparr>Secret := StringValue (SecretData secret0)\<rparr>;
                        resp = tflog_Error (''secretdata: '' @ Quote (SecretData secret0)) resp
                    in StateSet data resp))"

subsection \<open>SecretResource.Update\<close>


subsection \<open>SecretResource.Delete\<close>

definition Delete ::
  "framework \<Rightarrow> bindings \<Rightarrow> SecretResource \<Rightarrow> request \<Rightarrow> response \<Rightarrow> response" where
  "Delete fw b r req resp =
     (let data = Get_data (ReqState req);
          resp = AppendDiags (Get_diags (ReqState req)) resp
      in if HasError (Diagnostics resp) then resp
      else
        let resp = called (CallRemove (conn r) (ValueString (Id data))) resp
        in case secrets_Remove b (conn r) (ValueString (Id data)) of
             Some err \<Rightarrow> RespAddError ''failed to delete secret'' (Error err) resp
           | None \<Rightarrow> resp)"

subsection \<open>PodmanProvider.Configure\<close>

text \<open>
  The provider's configuration decodes into \<^verbatim>\<open>PodmanProviderModel\<close>;
  \<^verbatim>\<open>os.LookupEnv\<close> reads the environment, a map from names to values. The
  response carries the diagnostics, the data handed to resources and data sources, and
  the calls to the bindings.
\<close>

record PodmanProviderModel =
  Endpoint :: tf_string

record provider_request =
  Config_diags :: diagnostics
  Config_data :: PodmanProviderModel

record provider_response =
  PDiagnostics :: diagnostics
  ResourceData :: provider_data
  DataSourceData :: provider_data
  PCalls :: "remote_call list"

text \<open>The tail of the method: the connection attempt at the chosen endpoint.\<close>

definition connect_endpoint :: "bindings \<Rightarrow> string \<Rightarrow> provider_response \<Rightarrow> provider_response" where
  "connect_endpoint b endpoint resp =
     (case NewConnection b endpoint of
        Inl err \<Rightarrow>
          resp\<lparr>PCalls := PCalls resp @ [CallNewConnection endpoint],
               PDiagnostics := AddError ''failed to connect to podman socket''
                 (Error err) (PDiagnostics resp)\<rparr>
      | Inr c \<Rightarrow>
          resp\<lparr>PCalls := PCalls resp @ [CallNewConnection endpoint],
               ResourceData := Context c, DataSourceData := Context c\<rparr>)"

definition ProviderConfigure ::
  "bindings \<Rightarrow> (string \<rightharpoonup> string) \<Rightarrow> provider_request \<Rightarrow> provider_response \<Rightarrow> provider_response" where
  "ProviderConfigure b env req resp0 =
     (let data = Config_data req;
          resp = resp0\<lparr>PDiagnostics := Append (PDiagnostics resp0) (Config_diags req)\<rparr>
      in if HasError (PDiagnostics resp) then resp
      else if IsNull (Endpoint data) then
        (case env ''XDG_RUNTIME_DIR'' of
           None \<Rightarrow>
             resp\<lparr>PDiagnostics := AddError ''default endpoint cannot be used''
                      ''XDG_RUNTIME_DIR env var isn't set'' (PDiagnostics resp)\<rparr>
         | Some dir \<Rightarrow> connect_endpoint b (''unix:'' @ dir @ ''/podman/podman.sock'') resp)
      else connect_endpoint b (ValueString (Endpoint data)) resp)"

subsection \<open>A simulated service\<close>

text \<open>
  The examples below run the methods against a simulated service that holds a list of
  secrets: create answers with a given id, list returns the stored secrets whose id is
  among the values of the \<^verbatim>\<open>id\<close> filter, and remove fails with a not-found error
  for an id it does not hold. A second service fails every call with a given error. The
  framework of the examples converts maps element by element without diagnostics.
\<close>

definition no_such_secret :: remote_error where
  "no_such_secret = \<lparr>ResponseCode = 404, Message = ''no such secret''\<rparr>"

definition sim_bindings :: "SecretInfoReport list \<Rightarrow> string \<Rightarrow> bindings" where
  "sim_bindings store new_id =
     \<lparr>secrets_Create = (\<lambda>c payload opts. Inr new_id),
      secrets_List = (\<lambda>c opts.
        Inr (filter (\<lambda>s. case Filters opts ''id'' of
                             None \<Rightarrow> True
                           | Some ids \<Rightarrow> ID s \<in> set ids) store)),
      secrets_Remove = (\<lambda>c i. if i \<in> set (map ID store) then None else Some no_such_secret),
      NewConnection = (\<lambda>endpoint. Inr (Connection 0))\<rparr>"

definition failing_bindings :: "remote_error \<Rightarrow> bindings" where
  "failing_bindings e =
     \<lparr>secrets_Create = (\<lambda>c payload opts. Inl e),
      secrets_List = (\<lambda>c opts. Inl e),
      secrets_Remove = (\<lambda>c i. Some e),
      NewConnection = (\<lambda>endpoint. Inl e)\<rparr>"

definition sim_framework :: framework where
  "sim_framework =
     \<lparr>ElementsAs = (\<lambda>m target.
        case m of
          MapNull \<Rightarrow> ([], None)
        | MapUnknown \<Rightarrow>
            ([\<lparr>Severity = SeverityError, Summary = ''Value Conversion Error'',
               Detail = ''unhandled unknown value''\<rparr>], target)
        | MapValue f \<Rightarrow> ([], Some (\<lambda>k. map_option ValueString (f k)))),
      NewMapValueFrom = (\<lambda>g.
        case g of
          None \<Rightarrow> (MapNull, [])
        | Some f \<Rightarrow> (MapValue (\<lambda>k. map_option StringValue (f k)), []))\<rparr>"

definition configured :: SecretResource where
  "configured = \<lparr>conn = Some (Connection 0)\<rparr>"

definition fresh :: response where
  "fresh = \<lparr>Diagnostics = [], State = None, Log = [], Calls = []\<rparr>"

text \<open>The configuration of the repository's example, and the state it leaves.\<close>

definition foo_plan :: SecretResourceModel where
  "foo_plan =
     \<lparr>Id = StringUnknown, Name = StringValue ''foo'', Driver = StringValue ''file'',
      DriverOpts = MapNull, Labels = MapValue [''foo'' \<mapsto> StringValue ''bar''],
      Secret = StringValue ''bar''\<rparr>"

definition foo_state :: SecretResourceModel where
  "foo_state = foo_plan\<lparr>Id := StringValue ''abc123''\<rparr>"

definition decoded :: "SecretResourceModel \<Rightarrow> tfsdk_data" where
  "decoded data = \<lparr>Get_diags = [], Get_data = data\<rparr>"

definition foo_request :: request where
  "foo_request = \<lparr>Plan = decoded foo_plan, ReqState = decoded foo_state\<rparr>"

definition foo_report :: "string \<Rightarrow> SecretInfoReport" where
  "foo_report content =
     \<lparr>ID = ''abc123'', Spec_Name = ''foo'', Spec_Driver_Name = ''file'',
      Spec_Driver_Options = None, Spec_Labels = Some [''foo'' \<mapsto> ''bar''],
      SecretData = content\<rparr>"

text \<open>A failure of the service, and a second record under the id of the first.\<close>

definition timeout_error :: remote_error where
  "timeout_error = \<lparr>ResponseCode = 500, Message = ''context deadline exceeded''\<rparr>"

definition renamed_report :: SecretInfoReport where
  "renamed_report = (foo_report ''qux'')\<lparr>Spec_Name := ''other''\<rparr>"

section \<open>Properties\<close>

subsection \<open>Diagnostics\<close>

lemma set_Append: "set (Append ds new) = set ds \<union> set new"
  unfolding Append_def by (induction new arbitrary: ds) auto

lemma HasError_Append: "HasError (Append ds new) = (HasError ds \<or> HasError new)"
  by (auto simp: HasError_def set_Append)

lemma HasError_AddError: "HasError (AddError summary detail ds)"
  by (simp add: AddError_def HasError_def set_Append)

lemma in_AddError:
  "\<lparr>Severity = SeverityError, Summary = summary, Detail = detail\<rparr>
     \<in> set (AddError summary detail ds)"
  by (simp add: AddError_def set_Append)

lemma Append_Nil: "Append ds [] = ds"
  by (simp add: Append_def)

lemma HasError_Nil: "\<not> HasError []"
  by (simp add: HasError_def)

lemmas resp_defs = AppendDiags_def RespAddError_def StateSet_def RemoveResource_def
  tflog_Error_def called_def

lemmas example_defs = sim_bindings_def failing_bindings_def sim_framework_def configured_def
  fresh_def foo_plan_def foo_state_def decoded_def foo_request_def foo_report_def
  no_such_secret_def timeout_error_def renamed_report_def

subsection \<open>Read\<close>

text \<open>
  C4. When the lookup by the prior state's id returns no record, \<^verbatim>\<open>Read\<close> removes the
  resource from the state and adds no diagnostic: the diagnostics are those of decoding
  the prior state, which hold no error.
\<close>

theorem Read_absent:
  assumes "\<not> HasError (Append (Diagnostics resp) (Get_diags (ReqState req)))"
    and "secrets_List b (conn r)
           \<lparr>Filters = [''id'' \<mapsto> [ValueString (Id (Get_data (ReqState req)))]]\<rparr> = Inr []"
  shows "State (Read fw b r req resp) = None
       \<and> Diagnostics (Read fw b r req resp) = Append (Diagnostics resp) (Get_diags (ReqState req))
       \<and> \<not> HasError (Diagnostics (Read fw b r req resp))"
  using assms by (simp add: Read_def resp_defs Let_def)

theorem Read_absent_witness:
  "State (Read sim_framework (sim_bindings [] ''abc123'') configured foo_request fresh) = None
   \<and> Diagnostics (Read sim_framework (sim_bindings [] ''abc123'') configured foo_request fresh) = []"
  using Read_absent [of fresh foo_request "sim_bindings [] ''abc123''" configured sim_framework]
  by (simp add: example_defs Append_Nil HasError_Nil)

text \<open>
  C1, as the claim states it, fails: with the prior secret \<^verbatim>\<open>bar\<close> and a single
  remote record whose secret content is empty, the state \<^verbatim>\<open>Read\<close> sets holds the
  empty string, not \<^verbatim>\<open>bar\<close>.
\<close>

theorem Read_overwrites_secret_counterexample:
  "secrets_List (sim_bindings [foo_report ''''] ''abc123'') (conn configured)
      \<lparr>Filters = [''id'' \<mapsto> [ValueString (Id (Get_data (ReqState foo_request)))]]\<rparr>
     = Inr [foo_report '''']
   \<and> SecretData (foo_report '''') = []
   \<and> Secret (Get_data (ReqState foo_request)) = StringValue ''bar''
   \<and> map_option Secret
        (State (Read sim_framework (sim_bindings [foo_report ''''] ''abc123'') configured
                  foo_request fresh)) = Some (StringValue [])
   \<and> map_option Secret
        (State (Read sim_framework (sim_bindings [foo_report ''''] ''abc123'') configured
                  foo_request fresh)) \<noteq> Some (Secret (Get_data (ReqState foo_request)))"
  by (simp add: Read_def resp_defs example_defs Let_def Append_Nil HasError_Nil ValueString_def)

text \<open>
  C1, amended. When the lookup returns exactly one record and its secret content is
  empty, the state \<^verbatim>\<open>Read\<close> sets carries the content the remote system returned,
  the known empty string; the previously held value is not kept.
\<close>

theorem Read_secret_from_remote:
  assumes "\<not> HasError (Append (Diagnostics resp) (Get_diags (ReqState req)))"
    and "secrets_List b (conn r)
           \<lparr>Filters = [''id'' \<mapsto> [ValueString (Id (Get_data (ReqState req)))]]\<rparr> = Inr [s]"
    and "SecretData s = []"
  shows "map_option Secret (State (Read fw b r req resp)) = Some (StringValue [])"
  using assms by (simp add: Read_def resp_defs Let_def split: prod.splits)

theorem Read_secret_from_remote_witness:
  "map_option Secret
     (State (Read sim_framework (sim_bindings [foo_report ''''] ''abc123'') configured
               foo_request fresh)) = Some (StringValue [])"
  using Read_secret_from_remote [of fresh foo_request "sim_bindings [foo_report ''''] ''abc123''"
      configured "foo_report ''''" sim_framework]
  by (simp add: example_defs Append_Nil HasError_Nil ValueString_def)

text \<open>
  C3 fails on \<^verbatim>\<open>Read\<close>: with one remote record whose secret content is
  \<^verbatim>\<open>bar\<close>, the method logs \<^verbatim>\<open>secretdata: "bar"\<close> at error level, so the
  secret payload appears in the log output.
\<close>

theorem Read_logs_secret_content:
  "Log (Read sim_framework (sim_bindings [foo_report ''bar''] ''abc123'') configured
          foo_request fresh)
     = [\<lparr>Level = LevelError, Msg = ''secretdata: '' @ [CHR 0x22] @ ''bar'' @ [CHR 0x22]\<rparr>]
   \<and> (\<exists>entry \<in> set (Log (Read sim_framework (sim_bindings [foo_report ''bar''] ''abc123'')
                               configured foo_request fresh)).
        sublist (SecretData (foo_report ''bar'')) (Msg entry))"
proof -
  have l: "Log (Read sim_framework (sim_bindings [foo_report ''bar''] ''abc123'') configured
          foo_request fresh)
     = [\<lparr>Level = LevelError, Msg = ''secretdata: '' @ [CHR 0x22] @ ''bar'' @ [CHR 0x22]\<rparr>]"
    by (simp add: Read_def resp_defs example_defs Let_def Append_Nil HasError_Nil
        ValueString_def Quote_def quote_byte_def)
  have s: "sublist ''bar'' (''secretdata: '' @ [CHR 0x22] @ ''bar'' @ [CHR 0x22])"
    unfolding sublist_def
    by (intro exI [of _ "''secretdata: '' @ [CHR 0x22]"] exI [of _ "[CHR 0x22]"]) simp
  show ?thesis using l s by (simp add: foo_report_def)
qed

text \<open>
  C9, as the claim states it, fails in its second half: the simulated service holds two
  records under the one id, the lookup returns both, and \<^verbatim>\<open>Read\<close> ends without
  an error, with the state taken from the first record.
\<close>

theorem Read_duplicate_records_counterexample:
  "secrets_List (sim_bindings [foo_report ''bar'', renamed_report] ''abc123'') (conn configured)
      \<lparr>Filters = [''id'' \<mapsto> [ValueString (Id (Get_data (ReqState foo_request)))]]\<rparr>
     = Inr [foo_report ''bar'', renamed_report]
   \<and> \<not> HasError (Diagnostics (Read sim_framework
         (sim_bindings [foo_report ''bar'', renamed_report] ''abc123'') configured foo_request fresh))
   \<and> State (Read sim_framework
         (sim_bindings [foo_report ''bar'', renamed_report] ''abc123'') configured foo_request fresh)
       = Some foo_state"
  by (simp add: Read_def resp_defs example_defs Let_def Append_Nil HasError_Nil
      ValueString_def fun_eq_iff)

text \<open>
  C9, amended. \<^verbatim>\<open>Read\<close> makes one lookup, whose filter has the single key
  \<^verbatim>\<open>id\<close> with the single value of the prior state's id. Whenever the lookup returns
  one record or more, \<^verbatim>\<open>Read\<close> takes the state from the first record and adds no
  diagnostic of its own: the diagnostics are those of decoding the prior state and of
  the two map conversions.
\<close>

theorem Read_filters_by_id_uses_first:
  assumes "\<not> HasError (Append (Diagnostics resp) (Get_diags (ReqState req)))"
  shows "Calls (Read fw b r req resp)
           = Calls resp @ [CallList (conn r)
               \<lparr>Filters = [''id'' \<mapsto> [ValueString (Id (Get_data (ReqState req)))]]\<rparr>]
       \<and> (secrets_List b (conn r)
             \<lparr>Filters = [''id'' \<mapsto> [ValueString (Id (Get_data (ReqState req)))]]\<rparr>
             = Inr (secret0 # rest) \<longrightarrow>
            State (Read fw b r req resp)
              = Some ((Get_data (ReqState req))
                  \<lparr>Name := StringValue (Spec_Name secret0),
                   Driver := StringValue (Spec_Driver_Name secret0),
                   DriverOpts := fst (NewMapValueFrom fw (Spec_Driver_Options secret0)),
                   Labels := fst (NewMapValueFrom fw (Spec_Labels secret0)),
                   Secret := StringValue (SecretData secret0)\<rparr>)
          \<and> Diagnostics (Read fw b r req resp)
              = Append (Append (Append (Diagnostics resp) (Get_diags (ReqState req)))
                          (snd (NewMapValueFrom fw (Spec_Driver_Options secret0))))
                  (snd (NewMapValueFrom fw (Spec_Labels secret0))))"
  using assms
  by (auto simp: Read_def resp_defs Let_def split: prod.splits sum.splits list.splits)

theorem Read_filters_by_id_uses_first_witness:
  "Calls (Read sim_framework (sim_bindings [foo_report ''bar'', renamed_report] ''abc123'')
            configured foo_request fresh)
     = [CallList (Some (Connection 0)) \<lparr>Filters = [''id'' \<mapsto> [''abc123'']]\<rparr>]
   \<and> map_option Name (State (Read sim_framework
         (sim_bindings [foo_report ''bar'', renamed_report] ''abc123'') configured foo_request fresh))
       = Some (StringValue ''foo'')
   \<and> Diagnostics (Read sim_framework
         (sim_bindings [foo_report ''bar'', renamed_report] ''abc123'') configured foo_request fresh)
       = []"
  using Read_filters_by_id_uses_first [of fresh foo_request sim_framework
      "sim_bindings [foo_report ''bar'', renamed_report] ''abc123''" configured
      "foo_report ''bar''" "[renamed_report]"]
  by (simp add: example_defs Append_Nil HasError_Nil ValueString_def)

subsection \<open>Delete\<close>

text \<open>
  C2, as the claim states it, fails: the simulated service holds no secret, remove
  fails with a not-found error, and \<^verbatim>\<open>Delete\<close> ends with an error diagnostic.
\<close>

theorem Delete_not_found_counterexample:
  "secrets_Remove (sim_bindings [] ''abc123'') (conn configured)
      (ValueString (Id (Get_data (ReqState foo_request)))) = Some no_such_secret
   \<and> is_not_found no_such_secret
   \<and> HasError (Diagnostics (Delete sim_framework (sim_bindings [] ''abc123'') configured
                               foo_request fresh))"
  by (simp add: Delete_def resp_defs example_defs Let_def Append_Nil HasError_Nil
      HasError_AddError is_not_found_def ValueString_def)

text \<open>
  C2, amended. When the remote remove call fails, with a not-found error or with any
  other, \<^verbatim>\<open>Delete\<close> reports the failure: it adds the error diagnostic
  \<^verbatim>\<open>failed to delete secret\<close> carrying the remote message.
\<close>

theorem Delete_surfaces_remove_error:
  assumes "\<not> HasError (Append (Diagnostics resp) (Get_diags (ReqState req)))"
    and "secrets_Remove b (conn r) (ValueString (Id (Get_data (ReqState req)))) = Some e"
  shows "Diagnostics (Delete fw b r req resp)
           = AddError ''failed to delete secret'' (Error e)
               (Append (Diagnostics resp) (Get_diags (ReqState req)))
       \<and> HasError (Diagnostics (Delete fw b r req resp))"
  using assms by (simp add: Delete_def resp_defs Let_def HasError_AddError)

theorem Delete_surfaces_remove_error_witness:
  "is_not_found no_such_secret
   \<and> Diagnostics (Delete sim_framework (sim_bindings [] ''abc123'') configured foo_request fresh)
       = [\<lparr>Severity = SeverityError, Summary = ''failed to delete secret'',
           Detail = ''no such secret''\<rparr>]"
  using Delete_surfaces_remove_error [of fresh foo_request "sim_bindings [] ''abc123''"
      configured no_such_secret sim_framework]
  by (simp add: example_defs Append_Nil HasError_Nil ValueString_def is_not_found_def
      AddError_def Append_def Error_def)

subsection \<open>The resource's Configure\<close>

text \<open>
  C10. With no provider data (nil), \<^verbatim>\<open>Configure\<close> returns the resource and the
  response as they were. The diagnostics change only for provider data of another
  dynamic type than a context, the stored connection only for a context; provider data
  of another type always leaves an error diagnostic.
\<close>

theorem Configure_nil:
  "Configure r NilData resp = (r, resp)
   \<and> (Diagnostics (snd (Configure r pd resp)) \<noteq> Diagnostics resp \<longrightarrow> (\<exists>T. pd = OtherType T))
   \<and> (conn (fst (Configure r pd resp)) \<noteq> conn r \<longrightarrow> (\<exists>c. pd = Context c))
   \<and> HasError (Diagnostics (snd (Configure r (OtherType T) resp)))"
  by (cases pd) (simp_all add: Configure_def resp_defs HasError_AddError)

theorem Configure_nil_witness:
  "Configure configured NilData fresh = (configured, fresh)
   \<and> Diagnostics (snd (Configure configured (OtherType ''string'') fresh)) \<noteq> Diagnostics fresh"
  using Configure_nil [of configured fresh "OtherType ''string''" "''string''"]
  by (auto simp: fresh_def HasError_def)

subsection \<open>Create\<close>

text \<open>
  C5 fails on \<^verbatim>\<open>Create\<close> for the driver. The schema declares \<^verbatim>\<open>driver\<close>
  optional and computed, with no default, so a driver the caller left unset is unknown
  in the plan, and the method tests only \<^verbatim>\<open>IsNull\<close>. With the example's plan and
  an unknown driver, \<^verbatim>\<open>Create\<close> ends without error, the state has the id of the
  create response, and its driver is still unknown, not \<^verbatim>\<open>file\<close>; only a null
  driver becomes \<^verbatim>\<open>file\<close>.
\<close>

theorem Create_unknown_driver_not_backfilled:
  "\<not> HasError (Diagnostics (Create sim_framework (sim_bindings [] ''abc123'') configured
        (foo_request\<lparr>Plan := decoded (foo_plan\<lparr>Driver := StringUnknown\<rparr>)\<rparr>) fresh))
   \<and> map_option Id (State (Create sim_framework (sim_bindings [] ''abc123'') configured
        (foo_request\<lparr>Plan := decoded (foo_plan\<lparr>Driver := StringUnknown\<rparr>)\<rparr>) fresh))
       = Some (StringValue ''abc123'')
   \<and> map_option Driver (State (Create sim_framework (sim_bindings [] ''abc123'') configured
        (foo_request\<lparr>Plan := decoded (foo_plan\<lparr>Driver := StringUnknown\<rparr>)\<rparr>) fresh))
       = Some StringUnknown
   \<and> map_option Driver (State (Create sim_framework (sim_bindings [] ''abc123'') configured
        (foo_request\<lparr>Plan := decoded (foo_plan\<lparr>Driver := StringUnknown\<rparr>)\<rparr>) fresh))
       \<noteq> Some (StringValue ''file'')
   \<and> map_option Driver (State (Create sim_framework (sim_bindings [] ''abc123'') configured
        (foo_request\<lparr>Plan := decoded (foo_plan\<lparr>Driver := StringNull\<rparr>)\<rparr>) fresh))
       = Some (StringValue ''file'')"
  by (simp add: Create_def resp_defs example_defs Let_def Append_Nil HasError_Nil
      IsNull_def ValueString_def ValueStringPointer_def)

subsection \<open>Update\<close>




subsection \<open>Failure of the remote call\<close>

lemma Create_remote_failure:
  assumes "Calls (Create fw b r req resp) = Calls resp @ [c]" and "call_error b c = Some e"
  shows "State (Create fw b r req resp) = State resp
       \<and> HasError (Diagnostics (Create fw b r req resp))
       \<and> \<lparr>Severity = SeverityError, Summary = ''failed to add secret'', Detail = Error e\<rparr>
           \<in> set (Diagnostics (Create fw b r req resp))"
  using assms
  by (auto simp: Create_def resp_defs Let_def call_error_def HasError_AddError in_AddError
      split: prod.splits sum.splits if_splits)

lemma Read_remote_failure:
  assumes "Calls (Read fw b r req resp) = Calls resp @ [c]" and "call_error b c = Some e"
  shows "State (Read fw b r req resp) = State resp
       \<and> HasError (Diagnostics (Read fw b r req resp))
       \<and> \<lparr>Severity = SeverityError, Summary = ''failed to get secret'', Detail = Error e\<rparr>
           \<in> set (Diagnostics (Read fw b r req resp))"
  using assms
  by (auto simp: Read_def resp_defs Let_def call_error_def HasError_AddError in_AddError
      split: prod.splits sum.splits list.splits if_splits)

lemma Delete_remote_failure:
  assumes "Calls (Delete fw b r req resp) = Calls resp @ [c]" and "call_error b c = Some e"
  shows "State (Delete fw b r req resp) = State resp
       \<and> HasError (Diagnostics (Delete fw b r req resp))
       \<and> \<lparr>Severity = SeverityError, Summary = ''failed to delete secret'', Detail = Error e\<rparr>
           \<in> set (Diagnostics (Delete fw b r req resp))"
  using assms
  by (auto simp: Delete_def resp_defs Let_def call_error_def HasError_AddError in_AddError
      split: option.splits if_splits)

text \<open>
  C8. When \<^verbatim>\<open>Create\<close>, \<^verbatim>\<open>Read\<close> or \<^verbatim>\<open>Delete\<close> makes its call to the bindings
  and the call fails with an error, the method ends with an error diagnostic that names
  the operation and carries the error's message, and the state of the response is
  exactly the state the method was handed: nothing is stored.
\<close>

theorem remote_failure_is_terminal:
  "(Calls (Create fw b r req resp) = Calls resp @ [c] \<and> call_error b c = Some e \<longrightarrow>
      State (Create fw b r req resp) = State resp
    \<and> HasError (Diagnostics (Create fw b r req resp))
    \<and> \<lparr>Severity = SeverityError, Summary = ''failed to add secret'', Detail = Error e\<rparr>
        \<in> set (Diagnostics (Create fw b r req resp)))
   \<and> (Calls (Read fw b r req resp) = Calls resp @ [c] \<and> call_error b c = Some e \<longrightarrow>
      State (Read fw b r req resp) = State resp
    \<and> HasError (Diagnostics (Read fw b r req resp))
    \<and> \<lparr>Severity = SeverityError, Summary = ''failed to get secret'', Detail = Error e\<rparr>
        \<in> set (Diagnostics (Read fw b r req resp)))
   \<and> (Calls (Delete fw b r req resp) = Calls resp @ [c] \<and> call_error b c = Some e \<longrightarrow>
      State (Delete fw b r req resp) = State resp
    \<and> HasError (Diagnostics (Delete fw b r req resp))
    \<and> \<lparr>Severity = SeverityError, Summary = ''failed to delete secret'', Detail = Error e\<rparr>
        \<in> set (Diagnostics (Delete fw b r req resp)))"
  using Create_remote_failure [of fw b r req resp c e] Read_remote_failure [of fw b r req resp c e]
    Delete_remote_failure [of fw b r req resp c e]
  by blast

theorem remote_failure_is_terminal_witness:
  "State (Create sim_framework (failing_bindings timeout_error) configured foo_request fresh) = None
   \<and> Diagnostics (Create sim_framework (failing_bindings timeout_error) configured foo_request fresh)
       = [\<lparr>Severity = SeverityError, Summary = ''failed to add secret'',
           Detail = ''context deadline exceeded''\<rparr>]
   \<and> State (Read sim_framework (failing_bindings timeout_error) configured foo_request
              (fresh\<lparr>State := Some foo_state\<rparr>)) = Some foo_state
   \<and> HasError (Diagnostics (Read sim_framework (failing_bindings timeout_error) configured
        foo_request (fresh\<lparr>State := Some foo_state\<rparr>)))
   \<and> State (Delete sim_framework (failing_bindings timeout_error) configured foo_request
              (fresh\<lparr>State := Some foo_state\<rparr>)) = Some foo_state
   \<and> HasError (Diagnostics (Delete sim_framework (failing_bindings timeout_error) configured
        foo_request (fresh\<lparr>State := Some foo_state\<rparr>)))"
proof -
  have c: "Calls (Create sim_framework (failing_bindings timeout_error) configured foo_request fresh)
      = Calls fresh @ [CallCreate (Some (Connection 0)) ''bar''
          \<lparr>opt_Name = Some ''foo'', opt_Driver = Some ''file'', opt_DriverOpts = None,
           opt_Labels = Some (\<lambda>k. map_option ValueString ([''foo'' \<mapsto> StringValue ''bar''] k))\<rparr>]"
    by (simp add: Create_def resp_defs example_defs Let_def Append_Nil HasError_Nil
        ValueString_def ValueStringPointer_def)
  have d: "Diagnostics (Create sim_framework (failing_bindings timeout_error) configured
        foo_request fresh)
       = [\<lparr>Severity = SeverityError, Summary = ''failed to add secret'',
           Detail = ''context deadline exceeded''\<rparr>]"
    by (simp add: Create_def resp_defs example_defs Let_def Append_Nil HasError_Nil
        ValueString_def ValueStringPointer_def AddError_def Append_def Error_def)
  have l: "Calls (Read sim_framework (failing_bindings timeout_error) configured foo_request
              (fresh\<lparr>State := Some foo_state\<rparr>))
      = Calls (fresh\<lparr>State := Some foo_state\<rparr>)
        @ [CallList (Some (Connection 0)) \<lparr>Filters = [''id'' \<mapsto> [''abc123'']]\<rparr>]"
    by (simp add: Read_def resp_defs example_defs Let_def Append_Nil HasError_Nil ValueString_def)
  have m: "Calls (Delete sim_framework (failing_bindings timeout_error) configured foo_request
              (fresh\<lparr>State := Some foo_state\<rparr>))
      = Calls (fresh\<lparr>State := Some foo_state\<rparr>) @ [CallRemove (Some (Connection 0)) ''abc123'']"
    by (simp add: Delete_def resp_defs example_defs Let_def Append_Nil HasError_Nil ValueString_def)
  have e: "\<And>c. call_error (failing_bindings timeout_error) c = Some timeout_error"
    by (simp add: call_error_def failing_bindings_def split: remote_call.splits)
  show ?thesis
    using remote_failure_is_terminal [of sim_framework "failing_bindings timeout_error" configured
        foo_request fresh _ timeout_error, THEN conjunct1, rule_format, OF conjI, OF c e]
      remote_failure_is_terminal [of sim_framework "failing_bindings timeout_error" configured
        foo_request "fresh\<lparr>State := Some foo_state\<rparr>" _ timeout_error,
        THEN conjunct2, THEN conjunct1, rule_format, OF conjI, OF l e]
      remote_failure_is_terminal [of sim_framework "failing_bindings timeout_error" configured
        foo_request "fresh\<lparr>State := Some foo_state\<rparr>" _ timeout_error,
        THEN conjunct2, THEN conjunct2, rule_format, OF conjI, OF m e]
      d
    by (simp add: fresh_def)
qed

subsection \<open>The provider's Configure\<close>

text \<open>
  C6. With no endpoint configured: if \<^verbatim>\<open>XDG_RUNTIME_DIR\<close> is set to \<open>d\<close>, the one
  connection attempt is at \<^verbatim>\<open>unix:\<close>, \<open>d\<close>, \<^verbatim>\<open>/podman/podman.sock\<close>; if the
  variable is unset, the method ends with the error diagnostic
  \<^verbatim>\<open>default endpoint cannot be used\<close>, no connection is attempted, and no data is
  handed to resources or data sources.
\<close>

theorem ProviderConfigure_default_endpoint:
  assumes "\<not> HasError (Append (PDiagnostics resp) (Config_diags req))"
    and "IsNull (Endpoint (Config_data req))"
  shows "(env ''XDG_RUNTIME_DIR'' = Some d \<longrightarrow>
            PCalls (ProviderConfigure b env req resp)
              = PCalls resp @ [CallNewConnection (''unix:'' @ d @ ''/podman/podman.sock'')])
       \<and> (env ''XDG_RUNTIME_DIR'' = None \<longrightarrow>
            HasError (PDiagnostics (ProviderConfigure b env req resp))
          \<and> \<lparr>Severity = SeverityError, Summary = ''default endpoint cannot be used'',
              Detail = ''XDG_RUNTIME_DIR env var isn't set''\<rparr>
              \<in> set (PDiagnostics (ProviderConfigure b env req resp))
          \<and> PCalls (ProviderConfigure b env req resp) = PCalls resp
          \<and> ResourceData (ProviderConfigure b env req resp) = ResourceData resp
          \<and> DataSourceData (ProviderConfigure b env req resp) = DataSourceData resp)"
  using assms
  by (auto simp: ProviderConfigure_def connect_endpoint_def Let_def HasError_AddError in_AddError
      split: sum.splits)

theorem ProviderConfigure_default_endpoint_witness:
  "PCalls (ProviderConfigure (sim_bindings [] ''abc123'') [''XDG_RUNTIME_DIR'' \<mapsto> ''/run/user/1000'']
      \<lparr>Config_diags = [], Config_data = \<lparr>Endpoint = StringNull\<rparr>\<rparr>
      \<lparr>PDiagnostics = [], ResourceData = NilData, DataSourceData = NilData, PCalls = []\<rparr>)
     = [CallNewConnection ''unix:/run/user/1000/podman/podman.sock'']
   \<and> PCalls (ProviderConfigure (sim_bindings [] ''abc123'') Map.empty
      \<lparr>Config_diags = [], Config_data = \<lparr>Endpoint = StringNull\<rparr>\<rparr>
      \<lparr>PDiagnostics = [], ResourceData = NilData, DataSourceData = NilData, PCalls = []\<rparr>) = []
   \<and> HasError (PDiagnostics (ProviderConfigure (sim_bindings [] ''abc123'') Map.empty
      \<lparr>Config_diags = [], Config_data = \<lparr>Endpoint = StringNull\<rparr>\<rparr>
      \<lparr>PDiagnostics = [], ResourceData = NilData, DataSourceData = NilData, PCalls = []\<rparr>))"
  using ProviderConfigure_default_endpoint
      [of "\<lparr>PDiagnostics = [], ResourceData = NilData, DataSourceData = NilData, PCalls = []\<rparr>"
          "\<lparr>Config_diags = [], Config_data = \<lparr>Endpoint = StringNull\<rparr>\<rparr>"
          "[''XDG_RUNTIME_DIR'' \<mapsto> ''/run/user/1000'']" "''/run/user/1000''"
          "sim_bindings [] ''abc123''"]
    ProviderConfigure_default_endpoint
      [of "\<lparr>PDiagnostics = [], ResourceData = NilData, DataSourceData = NilData, PCalls = []\<rparr>"
          "\<lparr>Config_diags = [], Config_data = \<lparr>Endpoint = StringNull\<rparr>\<rparr>"
          Map.empty "''/run/user/1000''" "sim_bindings [] ''abc123''"]
  by (simp add: Append_Nil HasError_Nil IsNull_def)

end
